theory Spec2Isabelle
  imports Complex_Main "HOL-Library.Sublist"
begin

section \<open>Strings and arrays of the host language\<close>

text \<open>
  Strings are character lists. The line feed of the template literals is \<open>NL\<close>.
\<close>

definition NL :: string where
  "NL = [CHR 0x0A]"

text \<open>\<^verbatim>\<open>xs.join(sep)\<close>\<close>

fun join :: "string \<Rightarrow> string list \<Rightarrow> string" where
  "join sep [] = []"
| "join sep [x] = x"
| "join sep (x # y # ys) = x @ sep @ join sep (y # ys)"

text \<open>
  \<^verbatim>\<open>compact(...)\<close> of lodash drops the falsy entries of an array. The entries are
  optional strings: \<^verbatim>\<open>undefined\<close> is \<open>None\<close>, and the empty string is falsy too.
\<close>

definition compact :: "string option list \<Rightarrow> string list" where
  "compact xs =
     concat (map (\<lambda>x. case x of None \<Rightarrow> [] | Some s \<Rightarrow> if s = [] then [] else [s]) xs)"

text \<open>
  \<^verbatim>\<open>xs.slice(0, n)\<close> for an integer \<open>n\<close>: a negative \<open>n\<close> counts from the end of
  the array.
\<close>

definition slice0 :: "int \<Rightarrow> 'a list \<Rightarrow> 'a list" where
  "slice0 n xs =
     (if 0 \<le> n then take (nat n) xs else take (nat (int (length xs) + n)) xs)"

text \<open>
  \<^verbatim>\<open>[...new Set(xs)]\<close>: a set iterates in insertion order, so the first
  occurrence of every element is kept, in order.
\<close>

fun newSet :: "'a list \<Rightarrow> 'a list" where
  "newSet [] = []"
| "newSet (x # xs) = x # newSet (filter (\<lambda>y. y \<noteq> x) xs)"

text \<open>
  \<^verbatim>\<open>s.trim()\<close>. A character of the model is a code unit below 256; the white space
  and the line terminators among these are the tab, the line feed, the vertical tab, the
  form feed, the carriage return, the space and the no-break space.
\<close>

definition is_space :: "char \<Rightarrow> bool" where
  "is_space c =
     (c = CHR 0x09 \<or> c = CHR 0x0A \<or> c = CHR 0x0B \<or> c = CHR 0x0C \<or> c = CHR 0x0D
      \<or> c = CHR 0x20 \<or> c = CHR 0xA0)"

definition trim :: "string \<Rightarrow> string" where
  "trim s = rev (dropWhile is_space (rev (dropWhile is_space s)))"

section \<open>Data model\<close>

text \<open>
  Every failure of the program is a thrown error. For the \<^verbatim>\<open>Error\<close> of a
  collaborator the model keeps its message and which one raised it: the search service or
  the inference service. A \<^verbatim>\<open>TypeError\<close> is what reading a property of
  \<^verbatim>\<open>undefined\<close> throws; the model keeps the name of the constant that was undefined.
\<close>

datatype error = RetrievalError string | GenerationError string | TypeError string

text \<open>One item of \<^verbatim>\<open>SearchResponse.data\<close>; both fields are optional.\<close>

record search_item =
  url :: "string option"
  markdown :: "string option"

type_synonym search_response = "search_item list"

record serp_query =
  query :: string
  researchGoal :: string

text \<open>\<^verbatim>\<open>type ResearchResult\<close>\<close>

record research_result =
  learnings :: "string list"
  visitedUrls :: "string list"
  queries :: "serp_query list"

text \<open>The object that \<^verbatim>\<open>processSerpResult\<close> returns.\<close>

record serp_object =
  newLearnings :: "string list"
  followUpQuestions :: "string list"

section \<open>The outside world\<close>

text \<open>
  A call of \<^verbatim>\<open>generateObject\<close> is identified by the values that its prompt and
  schema interpolate.
\<close>

datatype request =
    SerpQueries string int "string list"
  | SerpLearnings string int int "string list"
  | FinalReport string string
  | Criticism string
  | FollowUps int string
  | Revision string string

text \<open>
  The trace lists, oldest first, what a run has done to the outside world: the waits
  (\<^verbatim>\<open>setTimeout\<close>, in milliseconds), the calls of \<^verbatim>\<open>firecrawl.search\<close> and of
  \<^verbatim>\<open>generateObject\<close>, and two of the console lines:
  \<^verbatim>\<open>Retrying query: ... in ...ms...\<close> and \<^verbatim>\<open>Researching deeper, breadth: ..., depth: ...\<close>.
  The other console lines are not recorded.
\<close>

datatype event =
    Sleep nat
  | Search string
  | Generate request
  | LogRetry string nat
  | LogDeeper int int

type_synonym trace = "event list"

text \<open>
  The two services are not part of the program. Their answer to a call is a function of
  the call and of the trace before it, so that a service may fail once and answer later.
  \<^verbatim>\<open>trimPrompt\<close> is imported from the module \<^verbatim>\<open>./ai/providers\<close> and is a parameter as well.
\<close>

record env =
  firecrawl_search :: "trace \<Rightarrow> string \<Rightarrow> error + search_response"
  generate_queries :: "trace \<Rightarrow> string \<Rightarrow> int \<Rightarrow> string list \<Rightarrow> error + serp_query list"
  generate_learnings :: "trace \<Rightarrow> string \<Rightarrow> int \<Rightarrow> int \<Rightarrow> string list \<Rightarrow> error + serp_object"
  generate_report :: "trace \<Rightarrow> string \<Rightarrow> string \<Rightarrow> error + string"
  generate_criticism :: "trace \<Rightarrow> string \<Rightarrow> error + string"
  generate_questions :: "trace \<Rightarrow> int \<Rightarrow> string \<Rightarrow> error + string list"
  generate_revision :: "trace \<Rightarrow> string \<Rightarrow> string \<Rightarrow> error + string"
  trimPrompt :: "string \<Rightarrow> nat \<Rightarrow> string"

type_synonym 'a io = "trace \<Rightarrow> (error + 'a) \<times> trace"

section \<open>Query expansion and distillation\<close>

definition generateSerpQueries :: "env \<Rightarrow> string \<Rightarrow> int \<Rightarrow> string list \<Rightarrow> serp_query list io" where
  "generateSerpQueries env qry numQueries ls t =
     (case generate_queries env t qry numQueries ls of
        Inl e \<Rightarrow> (Inl e, t @ [Generate (SerpQueries qry numQueries ls)])
      | Inr res \<Rightarrow> (Inr (slice0 numQueries res), t @ [Generate (SerpQueries qry numQueries ls)]))"

definition processSerpResult ::
  "env \<Rightarrow> string \<Rightarrow> search_response \<Rightarrow> int \<Rightarrow> int \<Rightarrow> serp_object io" where
  "processSerpResult env qry result numLearnings numFollowUpQuestions t =
     (let contents = map (\<lambda>content. trimPrompt env content 25000) (compact (map markdown result))
      in (generate_learnings env t qry numLearnings numFollowUpQuestions contents,
          t @ [Generate (SerpLearnings qry numLearnings numFollowUpQuestions contents)]))"

section \<open>Retrieval with retries\<close>

definition MAX_RETRIES :: int where
  "MAX_RETRIES = 5"

definition INITIAL_BACKOFF :: nat where
  "INITIAL_BACKOFF = 5000"

text \<open>
  The \<^verbatim>\<open>while\<close> loop of \<^verbatim>\<open>firecrawlSearchWithRetry\<close>, with its two variables
  \<open>attempt\<close> and \<open>backoff\<close>. The wait before an attempt is \<open>INITIAL_BACKOFF\<close>
  every time; the wait after a failed attempt is \<open>backoff\<close>.
\<close>

function retry_loop :: "env \<Rightarrow> string \<Rightarrow> int \<Rightarrow> int \<Rightarrow> nat \<Rightarrow> search_response io" where
  "retry_loop env qry retries attempt backoff t =
     (if attempt < retries then
        (case firecrawl_search env (t @ [Sleep INITIAL_BACKOFF]) qry of
           Inr res \<Rightarrow> (Inr res, t @ [Sleep INITIAL_BACKOFF, Search qry])
         | Inl e \<Rightarrow>
             if attempt + 1 < retries then
               retry_loop env qry retries (attempt + 1) (backoff * 2)
                 (t @ [Sleep INITIAL_BACKOFF, Search qry, LogRetry qry backoff, Sleep backoff])
             else (Inl e, t @ [Sleep INITIAL_BACKOFF, Search qry]))
      else (Inl (RetrievalError (''Failed to run query: '' @ qry)), t))"
  by pat_completeness auto
termination
  by (relation "measure (\<lambda>(env, qry, retries, attempt, backoff, t). nat (retries - attempt))") auto

definition firecrawlSearchWithRetry :: "env \<Rightarrow> string \<Rightarrow> int \<Rightarrow> search_response io" where
  "firecrawlSearchWithRetry env qry retries = retry_loop env qry retries 0 INITIAL_BACKOFF"

section \<open>The research recursion\<close>

text \<open>
  \<^verbatim>\<open>Promise.all(xs.map(x => limit(() => f(x))))\<close> with \<^verbatim>\<open>ConcurrencyLimit = 1\<close>:
  the limiter starts a unit when the one before it has settled, so the units run in the
  order of the array. The promise of \<^verbatim>\<open>Promise.all\<close> is rejected by the first
  unit that is rejected, with the error of that unit.

  The trace of a rejected call is the trace up to the call that raised the error, and no
  more than a prefix of what the program does: once a unit is rejected, the limiter goes
  on to start the units that are still queued, at this level and at the levels around it,
  and their events interleave. Those events are not modelled; what is stated about a
  rejected level is its error.
\<close>

fun promiseAll_limit :: "('a \<Rightarrow> 'b io) \<Rightarrow> 'a list \<Rightarrow> 'b list io" where
  "promiseAll_limit f [] t = (Inr [], t)"
| "promiseAll_limit f (x # xs) t =
     (case f x t of
        (Inl e, t') \<Rightarrow> (Inl e, t')
      | (Inr r, t') \<Rightarrow>
          (case promiseAll_limit f xs t' of
             (Inl e, t'') \<Rightarrow> (Inl e, t'')
           | (Inr rs, t'') \<Rightarrow> (Inr (r # rs), t'')))"

lemma promiseAll_limit_cong [fundef_cong]:
  "xs = ys \<Longrightarrow> t = u \<Longrightarrow> (\<And>x s. x \<in> set ys \<Longrightarrow> f x s = g x s)
     \<Longrightarrow> promiseAll_limit f xs t = promiseAll_limit g ys u"
proof (induction ys arbitrary: xs t u)
  case Nil
  then show ?case by simp
next
  case (Cons y ys)
  have "promiseAll_limit f ys s = promiseAll_limit g ys s" for s
    by (rule Cons.IH) (simp_all add: Cons.prems)
  with Cons.prems show ?case by (simp split: prod.split sum.split)
qed

definition nextQuery :: "serp_query \<Rightarrow> serp_object \<Rightarrow> string" where
  "nextQuery serpQuery res =
     trim (NL @ ''            Previous research goal: '' @ researchGoal serpQuery @ NL
       @ ''            Follow-up research directions: ''
       @ join [] (map (\<lambda>q. NL @ q) (followUpQuestions res)) @ NL @ ''          '')"

text \<open>
  \<open>deepResearch\<close> is one level; \<open>branch\<close> is the unit of work of one sub-query,
  the body of the \<^verbatim>\<open>async\<close> arrow function. What the \<^verbatim>\<open>try\<close> block awaits
  (retrieval and distillation) is caught by its \<^verbatim>\<open>catch\<close>. The recursive call is
  returned without \<^verbatim>\<open>await\<close>: its promise settles the unit after the \<^verbatim>\<open>try\<close>
  block has been left, so its rejection is the rejection of the unit.
\<close>

function deepResearch ::
    "env \<Rightarrow> string \<Rightarrow> int \<Rightarrow> int \<Rightarrow> string list \<Rightarrow> string list \<Rightarrow> research_result io"
  and branch ::
    "env \<Rightarrow> serp_query list \<Rightarrow> int \<Rightarrow> int \<Rightarrow> string list \<Rightarrow> string list \<Rightarrow> serp_query
       \<Rightarrow> research_result io" where
  "deepResearch env qry breadth depth ls urls t =
     (case generateSerpQueries env qry breadth ls t of
        (Inl e, t1) \<Rightarrow> (Inl e, t1)
      | (Inr serpQueries, t1) \<Rightarrow>
          (case promiseAll_limit (branch env serpQueries breadth depth ls urls) serpQueries t1 of
             (Inl e, t2) \<Rightarrow> (Inl e, t2)
           | (Inr results, t2) \<Rightarrow>
               (Inr \<lparr>learnings = newSet (concat (map learnings results)),
                     visitedUrls = newSet (concat (map visitedUrls results)),
                     queries = serpQueries\<rparr>, t2)))"
| "branch env serpQueries breadth depth ls urls serpQuery t =
     (case firecrawlSearchWithRetry env (query serpQuery) MAX_RETRIES t of
        (Inl e, t1) \<Rightarrow> (Inr \<lparr>learnings = [], visitedUrls = [], queries = []\<rparr>, t1)
      | (Inr result, t1) \<Rightarrow>
          (let newUrls = compact (map url result);
               newBreadth = \<lceil>real_of_int breadth / 2\<rceil>;
               newDepth = depth - 1
           in case processSerpResult env (query serpQuery) result 3 newBreadth t1 of
                (Inl e, t2) \<Rightarrow> (Inr \<lparr>learnings = [], visitedUrls = [], queries = []\<rparr>, t2)
              | (Inr res, t2) \<Rightarrow>
                  (let allLearnings = ls @ newLearnings res;
                       allUrls = urls @ newUrls
                   in if newDepth > 0 then
                        deepResearch env (nextQuery serpQuery res) newBreadth newDepth
                          allLearnings allUrls (t2 @ [LogDeeper newBreadth newDepth])
                      else
                        (Inr \<lparr>learnings = allLearnings, visitedUrls = allUrls,
                              queries = serpQueries\<rparr>, t2))))"
  by pat_completeness auto
termination
  by (relation "measure (\<lambda>x. case x of
        Inl (env, qry, breadth, depth, ls, urls, t) \<Rightarrow> 2 * nat depth + 1
      | Inr (env, serpQueries, breadth, depth, ls, urls, serpQuery, t) \<Rightarrow> 2 * nat depth)")
    auto

section \<open>Refinement and report assembly\<close>

definition combinedQuery :: "string \<Rightarrow> string \<Rightarrow> string list \<Rightarrow> string" where
  "combinedQuery initialQuery criticism followUps =
     NL @ ''Initial Query: '' @ initialQuery @ NL
     @ ''Criticism: '' @ criticism @ NL
     @ ''Follow-up Questions:'' @ NL
     @ join NL (map (\<lambda>q. ''Q: '' @ q) followUps) @ NL"

text \<open>
  \<^verbatim>\<open>refineReport\<close> destructures \<^verbatim>\<open>learnings\<close> and \<^verbatim>\<open>visitedUrls\<close> from the
  result of the research. Both are written to the console; the prompt of the revision
  interpolates the report and the learnings.
\<close>

definition refineReport :: "env \<Rightarrow> string \<Rightarrow> string \<Rightarrow> int \<Rightarrow> int \<Rightarrow> string io" where
  "refineReport env report initialQuery breadth depth t =
     (case generate_criticism env t report of
        Inl e \<Rightarrow> (Inl e, t @ [Generate (Criticism report)])
      | Inr criticism \<Rightarrow>
          (case generate_questions env (t @ [Generate (Criticism report)]) breadth criticism of
             Inl e \<Rightarrow>
               (Inl e, t @ [Generate (Criticism report), Generate (FollowUps breadth criticism)])
           | Inr questions \<Rightarrow>
               (case deepResearch env
                       (combinedQuery initialQuery criticism (slice0 breadth questions))
                       breadth depth [] []
                       (t @ [Generate (Criticism report), Generate (FollowUps breadth criticism)]) of
                  (Inl e, t1) \<Rightarrow> (Inl e, t1)
                | (Inr r, t1) \<Rightarrow>
                    (generate_revision env t1 report (join NL (learnings r)),
                     t1 @ [Generate (Revision report (join NL (learnings r)))]))))"

text \<open>The \<^verbatim>\<open>for\<close> loop of \<^verbatim>\<open>writeFinalReport\<close>, with its counter \<open>i\<close>.\<close>

function refine_loop :: "env \<Rightarrow> string \<Rightarrow> int \<Rightarrow> int \<Rightarrow> string \<Rightarrow> string io" where
  "refine_loop env prompt refinementIterates i reportMarkdown t =
     (if i < refinementIterates then
        (case refineReport env reportMarkdown prompt 3 2 t of
           (Inl e, t') \<Rightarrow> (Inl e, t')
         | (Inr refinedReport, t') \<Rightarrow>
             refine_loop env prompt refinementIterates (i + 1) refinedReport t')
      else (Inr reportMarkdown, t))"
  by pat_completeness auto
termination
  by (relation "measure (\<lambda>(env, prompt, refinementIterates, i, reportMarkdown, t).
        nat (refinementIterates - i))") auto

definition urlsSection :: "string list \<Rightarrow> string" where
  "urlsSection urls =
     NL @ NL @ ''## Sources'' @ NL @ NL @ join NL (map (\<lambda>u. ''- '' @ u) urls)"

text \<open>\<^verbatim>\<open>writeFinalReport\<close> returns one string: the report followed by the sources.\<close>

definition writeFinalReport ::
  "env \<Rightarrow> string \<Rightarrow> string list \<Rightarrow> string list \<Rightarrow> int \<Rightarrow> string io" where
  "writeFinalReport env prompt ls urls refinementIterates t =
     (let learningsString =
            trimPrompt env
              (join NL (map (\<lambda>learning. ''<learning>'' @ NL @ learning @ NL @ ''</learning>'') ls))
              150000
      in case generate_report env t prompt learningsString of
           Inl e \<Rightarrow> (Inl e, t @ [Generate (FinalReport prompt learningsString)])
         | Inr reportMarkdown \<Rightarrow>
             (case refine_loop env prompt refinementIterates 0 reportMarkdown
                     (t @ [Generate (FinalReport prompt learningsString)]) of
                (Inl e, t') \<Rightarrow> (Inl e, t')
              | (Inr report, t') \<Rightarrow> (Inr (report @ urlsSection urls), t')))"

section \<open>The command-line run\<close>

text \<open>The \<^verbatim>\<open>combinedQuery\<close> of \<^verbatim>\<open>run\<close>, from the questions and their answers.\<close>

definition run_combinedQuery :: "string \<Rightarrow> (string \<times> string) list \<Rightarrow> string" where
  "run_combinedQuery initialQuery qas =
     NL @ ''Initial Query: '' @ initialQuery @ NL
     @ ''Follow-up Questions and Answers:'' @ NL
     @ join NL (map (\<lambda>(q, a). ''Q: '' @ q @ NL @ ''A: '' @ a) qas) @ NL"

text \<open>
  \<^verbatim>\<open>run\<close>, from the point where the terminal has been read: \<open>initialQuery\<close>,
  \<open>breadth\<close>, \<open>depth\<close> and \<open>refinement\<close> are what the user typed (the numbers
  after \<^verbatim>\<open>parseInt(...) || default\<close>), and \<open>qas\<close> pairs every follow-up question
  with its answer. The second file that holds \<^verbatim>\<open>run\<close> asks for no number of
  refinements and leaves \<^verbatim>\<open>refinementIterates\<close> to its default: it is this
  function at \<open>refinement = 1\<close>.

  After the research, \<^verbatim>\<open>const { steps, report } = await writeFinalReport(...)\<close>
  reads the properties \<^verbatim>\<open>steps\<close> and \<^verbatim>\<open>report\<close> of the returned value. That
  value is a string, which has neither property, so both constants are
  \<^verbatim>\<open>undefined\<close>. The next statement builds \<^verbatim>\<open>metadata\<close> from a template whose
  expressions are evaluated in order; the ones before the last only format the values at
  hand, and the last is \<^verbatim>\<open>steps.map(...)\<close>, which throws a \<^verbatim>\<open>TypeError\<close>. The
  statements after it, which choose the file name and save the report, are not reached.
\<close>

definition run ::
  "env \<Rightarrow> string \<Rightarrow> int \<Rightarrow> int \<Rightarrow> int \<Rightarrow> (string \<times> string) list \<Rightarrow> unit io" where
  "run env initialQuery breadth depth refinement qas t =
     (case deepResearch env (run_combinedQuery initialQuery qas) breadth depth [] [] t of
        (Inl e, t1) \<Rightarrow> (Inl e, t1)
      | (Inr r, t1) \<Rightarrow>
          (case writeFinalReport env (run_combinedQuery initialQuery qas)
                  (learnings r) (visitedUrls r) refinement t1 of
             (Inl e, t2) \<Rightarrow> (Inl e, t2)
           | (Inr reportWithSources, t2) \<Rightarrow> (Inl (TypeError ''steps''), t2)))"

declare deepResearch.simps [simp del] branch.simps [simp del] retry_loop.simps [simp del]
declare refine_loop.simps [simp del]

section \<open>Observations\<close>

text \<open>
  What the retry loop leaves in the trace when \<open>k\<close> attempts have failed and were
  followed by a retry: for each of them the wait before the attempt, the call, the
  console line and the wait of \<open>backoff\<close>, which has doubled \<open>j\<close> times before
  the attempt number \<open>j\<close>.
\<close>

definition backoff_rounds :: "string \<Rightarrow> nat \<Rightarrow> nat \<Rightarrow> trace" where
  "backoff_rounds qry backoff k =
     concat (map (\<lambda>j. [Sleep INITIAL_BACKOFF, Search qry,
                        LogRetry qry (backoff * 2 ^ j), Sleep (backoff * 2 ^ j)]) [0..<k])"

text \<open>
  The events that only a further level of the recursion produces: its console line and
  its query expansion.
\<close>

definition deeper_level :: "event \<Rightarrow> bool" where
  "deeper_level e =
     (case e of LogDeeper b d \<Rightarrow> True | Generate (SerpQueries q n ls) \<Rightarrow> True | _ \<Rightarrow> False)"

text \<open>
  A world whose search service answers as in \<open>env\<close>, with the URL of every page
  replaced by its image under \<open>f\<close>.
\<close>

definition with_urls :: "(string option \<Rightarrow> string option) \<Rightarrow> env \<Rightarrow> env" where
  "with_urls f env = env\<lparr>firecrawl_search :=
     (\<lambda>t q. case firecrawl_search env t q of
               Inl e \<Rightarrow> Inl e
             | Inr res \<Rightarrow> Inr (map (\<lambda>item. item\<lparr>url := f (url item)\<rparr>) res))\<rparr>"

text \<open>The outcome of a research without its URLs and queries: the error or the learnings.\<close>

definition learnt :: "(error + research_result) \<times> trace \<Rightarrow> (error + string list) \<times> trace" where
  "learnt x = (case x of (Inl e, t) \<Rightarrow> (Inl e, t) | (Inr r, t) \<Rightarrow> (Inr (learnings r), t))"

definition learnt_all ::
  "(error + research_result list) \<times> trace \<Rightarrow> (error + string list list) \<times> trace" where
  "learnt_all x = (case x of (Inl e, t) \<Rightarrow> (Inl e, t) | (Inr rs, t) \<Rightarrow> (Inr (map learnings rs), t))"

section \<open>Example worlds\<close>

text \<open>
  Worlds for running the model on concrete inputs. In \<open>env_ok\<close> every call succeeds:
  the expansion proposes the two queries \<open>qa\<close> and \<open>qb\<close>, every search finds the
  page \<open>page_ok\<close>, and every distillation answers \<open>res_ok\<close>.
\<close>

definition qa :: serp_query where
  "qa = \<lparr>query = ''a'', researchGoal = ''g''\<rparr>"

definition qb :: serp_query where
  "qb = \<lparr>query = ''b'', researchGoal = ''h''\<rparr>"

definition page_ok :: search_response where
  "page_ok = [\<lparr>url = Some ''u'', markdown = Some ''m''\<rparr>]"

definition res_ok :: serp_object where
  "res_ok = \<lparr>newLearnings = [''L''], followUpQuestions = [''f'']\<rparr>"

definition env_ok :: env where
  "env_ok = \<lparr>
     firecrawl_search = (\<lambda>t q. Inr page_ok),
     generate_queries = (\<lambda>t q n ls. Inr [qa, qb]),
     generate_learnings = (\<lambda>t q nl nf cs. Inr res_ok),
     generate_report = (\<lambda>t p ls. Inr ''draft''),
     generate_criticism = (\<lambda>t r. Inr ''c''),
     generate_questions = (\<lambda>t n c. Inr [''x'']),
     generate_revision = (\<lambda>t r ls. Inr (r @ ''+'')),
     trimPrompt = (\<lambda>s n. take n s)\<rparr>"

text \<open>The search for the query \<open>a\<close> always fails; the other searches succeed.\<close>

definition env_flaky :: env where
  "env_flaky = env_ok\<lparr>firecrawl_search :=
     (\<lambda>t q. if q = ''a'' then Inl (RetrievalError ''Timeout'') else Inr page_ok)\<rparr>"

text \<open>Every search fails.\<close>

definition env_down :: env where
  "env_down = env_ok\<lparr>firecrawl_search := (\<lambda>t q. Inl (RetrievalError ''Timeout''))\<rparr>"

text \<open>The search fails until the trace has ten events, and succeeds from then on.\<close>

definition env_recovering :: env where
  "env_recovering = env_ok\<lparr>firecrawl_search :=
     (\<lambda>t q. if length t < 10 then Inl (RetrievalError ''Timeout'') else Inr page_ok)\<rparr>"

text \<open>The pages have another URL.\<close>

definition env_other_urls :: env where
  "env_other_urls = env_ok\<lparr>firecrawl_search :=
     (\<lambda>t q. Inr [\<lparr>url = Some ''w'', markdown = Some ''m''\<rparr>])\<rparr>"

text \<open>Every distillation fails.\<close>

definition env_nodistill :: env where
  "env_nodistill = env_ok\<lparr>generate_learnings :=
     (\<lambda>t q nl nf cs. Inl (GenerationError ''schema''))\<rparr>"

text \<open>The expansion proposes no query.\<close>

definition env_noplan :: env where
  "env_noplan = env_ok\<lparr>generate_queries := (\<lambda>t q n ls. Inr [])\<rparr>"

text \<open>The expansion fails as soon as learnings are carried in, that is below the first level.\<close>

definition env_deep_fail :: env where
  "env_deep_fail = env_ok\<lparr>generate_queries :=
     (\<lambda>t q n ls. if ls = [] then Inr [qa, qb] else Inl (GenerationError ''schema''))\<rparr>"

section \<open>Lemmas\<close>

subsection \<open>Rules for running the model\<close>

lemmas run_simps = deepResearch.simps branch.simps retry_loop.simps firecrawlSearchWithRetry_def
  generateSerpQueries_def processSerpResult_def slice0_def compact_def MAX_RETRIES_def
  INITIAL_BACKOFF_def Let_def

lemmas env_simps = env_ok_def env_flaky_def env_down_def env_nodistill_def env_noplan_def
  qa_def qb_def page_ok_def res_ok_def

lemmas report_simps = refineReport_def writeFinalReport_def refine_loop.simps urlsSection_def

subsection \<open>Sets and counting\<close>

lemma set_newSet: "set (newSet xs) = set xs"
  by (induction xs rule: newSet.induct) auto

lemma distinct_newSet: "distinct (newSet xs)"
  by (induction xs rule: newSet.induct) (auto simp: set_newSet)

lemma count_list_distinct: "distinct xs \<Longrightarrow> x \<in> set xs \<Longrightarrow> count_list xs x = 1"
  by (induction xs) auto

subsection \<open>One level and its branches\<close>

lemma deepResearch_expansion_failed:
  "generateSerpQueries env qry breadth ls t = (Inl e, t1)
     \<Longrightarrow> deepResearch env qry breadth depth ls urls t = (Inl e, t1)"
  by (simp add: deepResearch.simps)

lemma deepResearch_level:
  "generateSerpQueries env qry breadth ls t = (Inr Q, t1) \<Longrightarrow>
   deepResearch env qry breadth depth ls urls t =
     (case promiseAll_limit (branch env Q breadth depth ls urls) Q t1 of
        (Inl e, t2) \<Rightarrow> (Inl e, t2)
      | (Inr results, t2) \<Rightarrow>
          (Inr \<lparr>learnings = newSet (concat (map learnings results)),
                visitedUrls = newSet (concat (map visitedUrls results)),
                queries = Q\<rparr>, t2))"
  by (simp add: deepResearch.simps)

lemma deepResearch_returns:
  assumes "deepResearch env qry breadth depth ls urls t = (Inr r, t')"
  shows "\<exists>Q t1 rs. generateSerpQueries env qry breadth ls t = (Inr Q, t1)
           \<and> promiseAll_limit (branch env Q breadth depth ls urls) Q t1 = (Inr rs, t')
           \<and> r = \<lparr>learnings = newSet (concat (map learnings rs)),
                   visitedUrls = newSet (concat (map visitedUrls rs)), queries = Q\<rparr>"
  using assms by (subst (asm) deepResearch.simps) (auto split: prod.splits sum.splits)

lemma branch_retrieval_failed:
  "firecrawlSearchWithRetry env (query q) MAX_RETRIES t = (Inl e, t1)
     \<Longrightarrow> branch env Q breadth depth ls urls q t
           = (Inr \<lparr>learnings = [], visitedUrls = [], queries = []\<rparr>, t1)"
  by (simp add: branch.simps)

lemma promiseAll_limit_all_same:
  assumes "\<forall>x \<in> set xs. \<forall>s. fst (f x s) = Inr c"
  shows "fst (promiseAll_limit f xs t) = Inr (replicate (length xs) c)"
  using assms
proof (induction xs arbitrary: t)
  case Nil
  then show ?case by simp
next
  case (Cons x xs)
  obtain t' where fx: "f x t = (Inr c, t')"
    using Cons.prems by (cases "f x t") (auto dest: spec [of _ t])
  have "fst (promiseAll_limit f xs t') = Inr (replicate (length xs) c)"
    using Cons by simp
  then show ?case
    by (cases "promiseAll_limit f xs t'") (simp add: fx)
qed

lemma concat_replicate_Nil: "concat (replicate n []) = []"
  by (induction n) auto

lemma level_of_empty_branches:
  assumes Q: "generateSerpQueries env qry breadth ls t = (Inr Q, t1)"
    and all: "\<forall>q \<in> set Q. \<forall>s. fst (branch env Q breadth depth ls urls q s)
                = Inr \<lparr>learnings = [], visitedUrls = [], queries = []\<rparr>"
  shows "fst (deepResearch env qry breadth depth ls urls t)
           = Inr \<lparr>learnings = [], visitedUrls = [], queries = Q\<rparr>"
proof -
  let ?f = "branch env Q breadth depth ls urls"
  have "fst (promiseAll_limit ?f Q t1)
          = Inr (replicate (length Q) \<lparr>learnings = [], visitedUrls = [], queries = []\<rparr>)"
    using all by (rule promiseAll_limit_all_same)
  then show ?thesis
    by (cases "promiseAll_limit ?f Q t1")
       (simp add: deepResearch_level [OF Q] concat_replicate_Nil)
qed


lemma ceil_half: "\<lceil>real_of_int b / 2\<rceil> = (b + 1) div 2"
proof -
  have "\<lceil>real_of_int b / real_of_int 2\<rceil> = - (- b div 2)"
    by (rule ceiling_divide_eq_div)
  also have "\<dots> = (b + 1) div 2"
    by presburger
  finally show ?thesis by simp
qed

lemma ceil_one_half: "\<lceil>(1::real) / 2\<rceil> = 1"
  using ceil_half [of 1] by simp

lemma promiseAll_limit_append:
  "promiseAll_limit f (xs @ ys) t =
     (case promiseAll_limit f xs t of
        (Inl e, t') \<Rightarrow> (Inl e, t')
      | (Inr rs, t') \<Rightarrow>
          (case promiseAll_limit f ys t' of
             (Inl e, t'') \<Rightarrow> (Inl e, t'')
           | (Inr rs', t'') \<Rightarrow> (Inr (rs @ rs'), t'')))"
  by (induction xs arbitrary: t) (auto split: prod.splits sum.splits)

lemma branch_distillation_failed:
  "firecrawlSearchWithRetry env (query q) MAX_RETRIES t = (Inr result, t1) \<Longrightarrow>
   processSerpResult env (query q) result 3 \<lceil>real_of_int breadth / 2\<rceil> t1 = (Inl e, t2) \<Longrightarrow>
   branch env Q breadth depth ls urls q t
     = (Inr \<lparr>learnings = [], visitedUrls = [], queries = []\<rparr>, t2)"
  by (simp add: branch.simps)

lemma branch_success:
  "firecrawlSearchWithRetry env (query q) MAX_RETRIES t = (Inr result, t1) \<Longrightarrow>
   processSerpResult env (query q) result 3 \<lceil>real_of_int breadth / 2\<rceil> t1 = (Inr res, t2) \<Longrightarrow>
   branch env Q breadth depth ls urls q t =
     (if 0 < depth - 1 then
        deepResearch env (nextQuery q res) \<lceil>real_of_int breadth / 2\<rceil> (depth - 1)
          (ls @ newLearnings res) (urls @ compact (map url result))
          (t2 @ [LogDeeper \<lceil>real_of_int breadth / 2\<rceil> (depth - 1)])
      else (Inr \<lparr>learnings = ls @ newLearnings res,
                  visitedUrls = urls @ compact (map url result), queries = Q\<rparr>, t2))"
  by (simp add: branch.simps Let_def)

lemma branch_fails_by_recursion:
  assumes "branch env Q breadth depth ls urls q t = (Inl e, t3)"
  shows "0 < depth - 1 \<and> (\<exists>result t1 res t2.
           firecrawlSearchWithRetry env (query q) MAX_RETRIES t = (Inr result, t1)
         \<and> processSerpResult env (query q) result 3 \<lceil>real_of_int breadth / 2\<rceil> t1 = (Inr res, t2)
         \<and> deepResearch env (nextQuery q res) \<lceil>real_of_int breadth / 2\<rceil> (depth - 1)
              (ls @ newLearnings res) (urls @ compact (map url result))
              (t2 @ [LogDeeper \<lceil>real_of_int breadth / 2\<rceil> (depth - 1)]) = (Inl e, t3))"
  using assms
  by (subst (asm) branch.simps) (auto simp: Let_def split: prod.splits sum.splits if_splits)

subsection \<open>The retry loop\<close>

lemma backoff_rounds_0: "backoff_rounds qry backoff 0 = []"
  by (simp add: backoff_rounds_def)

lemma backoff_rounds_Suc:
  "backoff_rounds qry backoff (Suc k) =
     [Sleep INITIAL_BACKOFF, Search qry, LogRetry qry backoff, Sleep backoff]
     @ backoff_rounds qry (backoff * 2) k"
proof -
  have "[0..<Suc k] = 0 # map Suc [0..<k]"
    by (simp add: upt_conv_Cons map_Suc_upt del: upt_Suc)
  then show ?thesis
    by (simp add: backoff_rounds_def comp_def mult.assoc del: upt_Suc)
qed

lemma retry_loop_trace:
  assumes "attempt < retries"
  shows "\<exists>k. k < nat (retries - attempt)
     \<and> (\<forall>j. j < k \<longrightarrow> isl (firecrawl_search env
                (t @ backoff_rounds qry backoff j @ [Sleep INITIAL_BACKOFF]) qry))
     \<and> retry_loop env qry retries attempt backoff t
         = (firecrawl_search env (t @ backoff_rounds qry backoff k @ [Sleep INITIAL_BACKOFF]) qry,
            t @ backoff_rounds qry backoff k @ [Sleep INITIAL_BACKOFF, Search qry])
     \<and> (isl (fst (retry_loop env qry retries attempt backoff t))
          \<longrightarrow> k = nat (retries - attempt) - 1)"
  using assms
proof (induction env qry retries attempt backoff t rule: retry_loop.induct)
  case (1 env qry retries attempt backoff t)
  let ?now = "firecrawl_search env (t @ [Sleep INITIAL_BACKOFF]) qry"
  show ?case
  proof (cases ?now)
    case (Inr res)
    with "1.prems" have "retry_loop env qry retries attempt backoff t
          = (?now, t @ [Sleep INITIAL_BACKOFF, Search qry])"
      by (subst retry_loop.simps) simp
    with Inr "1.prems" show ?thesis
      by (intro exI [of _ 0]) (simp add: backoff_rounds_0)
  next
    case (Inl e)
    show ?thesis
    proof (cases "attempt + 1 < retries")
      case False
      with Inl "1.prems" have "retry_loop env qry retries attempt backoff t
          = (?now, t @ [Sleep INITIAL_BACKOFF, Search qry])"
        by (subst retry_loop.simps) simp
      with Inl "1.prems" False show ?thesis
        by (intro exI [of _ 0]) (simp add: backoff_rounds_0)
    next
      case True
      let ?t' = "t @ [Sleep INITIAL_BACKOFF, Search qry, LogRetry qry backoff, Sleep backoff]"
      from "1.IH" [OF "1.prems" Inl True True] obtain k where
        k: "k < nat (retries - (attempt + 1))"
        and fails: "\<forall>j. j < k \<longrightarrow> isl (firecrawl_search env
                (?t' @ backoff_rounds qry (backoff * 2) j @ [Sleep INITIAL_BACKOFF]) qry)"
        and run: "retry_loop env qry retries (attempt + 1) (backoff * 2) ?t'
         = (firecrawl_search env (?t' @ backoff_rounds qry (backoff * 2) k @ [Sleep INITIAL_BACKOFF]) qry,
            ?t' @ backoff_rounds qry (backoff * 2) k @ [Sleep INITIAL_BACKOFF, Search qry])"
        and last: "isl (fst (retry_loop env qry retries (attempt + 1) (backoff * 2) ?t'))
          \<longrightarrow> k = nat (retries - (attempt + 1)) - 1"
        by blast
      have step: "retry_loop env qry retries attempt backoff t
                    = retry_loop env qry retries (attempt + 1) (backoff * 2) ?t'"
        using "1.prems" Inl True by (subst retry_loop.simps) simp
      have a: "Suc k < nat (retries - attempt)"
        using k by linarith
      have shift: "t @ backoff_rounds qry backoff (Suc k) @ xs
                     = ?t' @ backoff_rounds qry (backoff * 2) k @ xs" for xs
        by (simp add: backoff_rounds_Suc)
      have c: "retry_loop env qry retries attempt backoff t
         = (firecrawl_search env (t @ backoff_rounds qry backoff (Suc k) @ [Sleep INITIAL_BACKOFF]) qry,
            t @ backoff_rounds qry backoff (Suc k) @ [Sleep INITIAL_BACKOFF, Search qry])"
        unfolding shift step by (rule run)
      have d: "isl (fst (retry_loop env qry retries attempt backoff t))
          \<longrightarrow> Suc k = nat (retries - attempt) - 1"
      proof
        assume "isl (fst (retry_loop env qry retries attempt backoff t))"
        with last have "k = nat (retries - (attempt + 1)) - 1"
          unfolding step by (rule mp)
        with k show "Suc k = nat (retries - attempt) - 1"
          by linarith
      qed
      have b: "isl (firecrawl_search env
                (t @ backoff_rounds qry backoff j @ [Sleep INITIAL_BACKOFF]) qry)"
        if "j < Suc k" for j
      proof (cases j)
        case 0
        with Inl show ?thesis by (simp add: backoff_rounds_0)
      next
        case (Suc j')
        with that fails show ?thesis by (simp add: backoff_rounds_Suc)
      qed
      from a b c d show ?thesis
        by blast
    qed
  qed
qed

subsection \<open>Traces\<close>












subsection \<open>Worlds with other URLs\<close>

lemma retry_loop_with_urls:
  "retry_loop (with_urls f env) qry retries attempt backoff t =
     (case retry_loop env qry retries attempt backoff t of
        (Inl e, t') \<Rightarrow> (Inl e, t')
      | (Inr res, t') \<Rightarrow> (Inr (map (\<lambda>item. item\<lparr>url := f (url item)\<rparr>) res), t'))"
proof (induction env qry retries attempt backoff t rule: retry_loop.induct)
  case (1 env qry retries attempt backoff t)
  show ?case
  proof (cases "attempt < retries")
    case False
    then show ?thesis
      by (subst retry_loop.simps, subst (2) retry_loop.simps) simp
  next
    case True
    show ?thesis
    proof (cases "firecrawl_search env (t @ [Sleep INITIAL_BACKOFF]) qry")
      case (Inr res)
      with True show ?thesis
        by (subst retry_loop.simps, subst (2) retry_loop.simps) (simp add: with_urls_def)
    next
      case (Inl e)
      show ?thesis
      proof (cases "attempt + 1 < retries")
        case False
        with True Inl show ?thesis
          by (subst retry_loop.simps, subst (2) retry_loop.simps) (simp add: with_urls_def)
      next
        case deeper: True
        have l: "retry_loop (with_urls f env) qry retries attempt backoff t
                = retry_loop (with_urls f env) qry retries (attempt + 1) (backoff * 2)
                    (t @ [Sleep INITIAL_BACKOFF, Search qry, LogRetry qry backoff, Sleep backoff])"
          using True Inl deeper by (subst retry_loop.simps) (simp add: with_urls_def)
        have r: "retry_loop env qry retries attempt backoff t
                = retry_loop env qry retries (attempt + 1) (backoff * 2)
                    (t @ [Sleep INITIAL_BACKOFF, Search qry, LogRetry qry backoff, Sleep backoff])"
          using True Inl deeper by (subst retry_loop.simps) simp
        show ?thesis
          unfolding l r by (rule "1.IH" [OF True Inl deeper])
      qed
    qed
  qed
qed


lemma firecrawlSearchWithRetry_with_urls:
  "firecrawlSearchWithRetry (with_urls f env) qry retries t =
     (case firecrawlSearchWithRetry env qry retries t of
        (Inl e, t') \<Rightarrow> (Inl e, t')
      | (Inr res, t') \<Rightarrow> (Inr (map (\<lambda>item. item\<lparr>url := f (url item)\<rparr>) res), t'))"
  by (simp add: firecrawlSearchWithRetry_def retry_loop_with_urls)

lemma generateSerpQueries_with_urls:
  "generateSerpQueries (with_urls f env) qry n ls t = generateSerpQueries env qry n ls t"
  by (simp add: generateSerpQueries_def with_urls_def)

lemma processSerpResult_with_urls:
  "processSerpResult (with_urls f env) qry (map (\<lambda>item. item\<lparr>url := f (url item)\<rparr>) result) nl nf t
     = processSerpResult env qry result nl nf t"
  by (simp add: processSerpResult_def with_urls_def comp_def)

lemma promiseAll_limit_learnt:
  assumes "\<forall>x \<in> set xs. \<forall>s. learnt (f x s) = learnt (g x s)"
  shows "learnt_all (promiseAll_limit f xs t) = learnt_all (promiseAll_limit g xs t)"
  using assms
proof (induction xs arbitrary: t)
  case Nil
  then show ?case by simp
next
  case (Cons x xs)
  from Cons.prems have here: "learnt (f x t) = learnt (g x t)" by simp
  from Cons.prems have ih: "learnt_all (promiseAll_limit f xs s) = learnt_all (promiseAll_limit g xs s)" for s
    by (intro Cons.IH) simp
  obtain a t1 where fx: "f x t = (a, t1)" by (cases "f x t")
  obtain b t2 where gx: "g x t = (b, t2)" by (cases "g x t")
  show ?case
  proof (cases a)
    case (Inl e)
    with here fx gx show ?thesis
      by (cases b) (simp_all add: learnt_def learnt_all_def)
  next
    case (Inr r)
    with here fx gx obtain r' where b: "b = Inr r'" and l: "learnings r' = learnings r"
      and t: "t2 = t1"
      by (cases b) (simp_all add: learnt_def)
    from ih [of t1] show ?thesis
      by (cases "promiseAll_limit f xs t1"; cases "promiseAll_limit g xs t1")
         (auto simp: fx gx Inr b l t learnt_all_def split: sum.splits)
  qed
qed

lemma learnt_level:
  "learnt (case x of
             (Inl e, t2) \<Rightarrow> (Inl e, t2)
           | (Inr results, t2) \<Rightarrow>
               (Inr \<lparr>learnings = newSet (concat (map learnings results)),
                     visitedUrls = newSet (concat (map visitedUrls results)),
                     queries = Q\<rparr>, t2))
     = (case learnt_all x of
          (Inl e, t2) \<Rightarrow> (Inl e, t2)
        | (Inr lss, t2) \<Rightarrow> (Inr (newSet (concat lss)), t2))"
  by (cases x) (auto simp: learnt_def learnt_all_def split: sum.splits)

lemma with_urls_learnt:
  "learnt (deepResearch (with_urls f env) qry breadth depth ls urls' t)
     = learnt (deepResearch env qry breadth depth ls urls t)"
  "learnt (branch (with_urls f env) Q breadth depth ls urls' q s)
     = learnt (branch env Q breadth depth ls urls q s)"
proof (induction env qry breadth depth ls urls t and env Q breadth depth ls urls q s
    arbitrary: urls' and urls' rule: deepResearch_branch.induct)
  case (1 env qry breadth depth ls urls t)
  obtain a t1 where g: "generateSerpQueries env qry breadth ls t = (a, t1)"
    by (cases "generateSerpQueries env qry breadth ls t")
  then have g': "generateSerpQueries (with_urls f env) qry breadth ls t = (a, t1)"
    by (simp add: generateSerpQueries_with_urls)
  show ?case
  proof (cases a)
    case (Inl e)
    with g g' show ?thesis by (simp add: deepResearch_expansion_failed)
  next
    case (Inr SQ)
    have "\<forall>x \<in> set SQ. \<forall>s. learnt (branch (with_urls f env) SQ breadth depth ls urls' x s)
            = learnt (branch env SQ breadth depth ls urls x s)"
      using "1.IH" [OF g [symmetric] Inr] by blast
    then have "learnt_all (promiseAll_limit (branch (with_urls f env) SQ breadth depth ls urls') SQ t1)
             = learnt_all (promiseAll_limit (branch env SQ breadth depth ls urls) SQ t1)"
      by (rule promiseAll_limit_learnt)
    then show ?thesis
      using g g' Inr by (simp add: deepResearch_level learnt_level)
  qed
next
  case (2 env serpQueries breadth depth ls urls serpQuery t)
  let ?upd = "map (\<lambda>item. item\<lparr>url := f (url item)\<rparr>)"
  let ?nb = "\<lceil>real_of_int breadth / 2\<rceil>"
  obtain a t1 where r: "firecrawlSearchWithRetry env (query serpQuery) MAX_RETRIES t = (a, t1)"
    by (cases "firecrawlSearchWithRetry env (query serpQuery) MAX_RETRIES t")
  show ?case
  proof (cases a)
    case (Inl e)
    with r have "firecrawlSearchWithRetry (with_urls f env) (query serpQuery) MAX_RETRIES t = (Inl e, t1)"
      by (simp add: firecrawlSearchWithRetry_with_urls)
    with r Inl show ?thesis by (simp add: branch_retrieval_failed)
  next
    case (Inr result)
    with r have r': "firecrawlSearchWithRetry (with_urls f env) (query serpQuery) MAX_RETRIES t
                       = (Inr (?upd result), t1)"
      by (simp add: firecrawlSearchWithRetry_with_urls)
    obtain d t2 where p: "processSerpResult env (query serpQuery) result 3 ?nb t1 = (d, t2)"
      by (cases "processSerpResult env (query serpQuery) result 3 ?nb t1")
    then have p': "processSerpResult (with_urls f env) (query serpQuery) (?upd result) 3 ?nb t1 = (d, t2)"
      by (simp add: processSerpResult_with_urls)
    show ?thesis
    proof (cases d)
      case (Inl e)
      with r r' Inr p p' show ?thesis by (simp add: branch_distillation_failed)
    next
      case res: (Inr res)
      show ?thesis
      proof (cases "0 < depth - 1")
        case False
        with r r' Inr p p' res show ?thesis
          by (simp add: branch_success learnt_def)
      next
        case True
        have "learnt (deepResearch (with_urls f env) (nextQuery serpQuery res) ?nb (depth - 1)
                 (ls @ newLearnings res) (urls' @ compact (map url (?upd result)))
                 (t2 @ [LogDeeper ?nb (depth - 1)]))
            = learnt (deepResearch env (nextQuery serpQuery res) ?nb (depth - 1)
                 (ls @ newLearnings res) (urls @ compact (map url result))
                 (t2 @ [LogDeeper ?nb (depth - 1)]))"
          using "2.IH" [OF r [symmetric] Inr refl refl refl p [symmetric] res refl refl True] .
        with r r' Inr p p' res True show ?thesis
          by (simp add: branch_success)
      qed
    qed
  qed
qed

section \<open>Containment of retrieval failures\<close>




section \<open>Deduplication\<close>

text \<open>
  Claim C3. A result that \<open>deepResearch\<close> returns has no duplicate among its learnings
  and none among its visited URLs. A URL that any branch of the level contributes, also
  one that two sibling branches contribute, occurs exactly once in the visited URLs of
  the level.
\<close>

theorem deepResearch_no_duplicates:
  assumes "deepResearch env qry breadth depth ls urls t = (Inr r, t')"
  shows "distinct (learnings r) \<and> distinct (visitedUrls r)
     \<and> (\<exists>Q t1 rs. generateSerpQueries env qry breadth ls t = (Inr Q, t1)
           \<and> promiseAll_limit (branch env Q breadth depth ls urls) Q t1 = (Inr rs, t')
           \<and> (\<forall>b \<in> set rs. \<forall>u \<in> set (visitedUrls b). count_list (visitedUrls r) u = 1))"
proof -
  from deepResearch_returns [OF assms] obtain Q t1 rs where
    Q: "generateSerpQueries env qry breadth ls t = (Inr Q, t1)"
    and rs: "promiseAll_limit (branch env Q breadth depth ls urls) Q t1 = (Inr rs, t')"
    and r: "r = \<lparr>learnings = newSet (concat (map learnings rs)),
                     visitedUrls = newSet (concat (map visitedUrls rs)),
                     queries = Q\<rparr>"
    by blast
  have d: "distinct (visitedUrls r)" by (simp add: r distinct_newSet)
  have "count_list (visitedUrls r) u = 1" if "b \<in> set rs" "u \<in> set (visitedUrls b)" for b u
  proof -
    from that have "u \<in> set (visitedUrls r)" by (auto simp: r set_newSet)
    with d show ?thesis by (rule count_list_distinct)
  qed
  with Q rs d show ?thesis by (auto simp: r distinct_newSet)
qed

theorem deepResearch_no_duplicates_witness:
  "fst (deepResearch env_ok ''q'' 2 1 [] [] [])
     = Inr \<lparr>learnings = [''L''], visitedUrls = [''u''], queries = [qa, qb]\<rparr>
   \<and> distinct [''L''] \<and> distinct [''u''] \<and> count_list [''u''] ''u'' = 1"
proof -
  obtain r t' where run: "deepResearch env_ok ''q'' 2 1 [] [] [] = (Inr r, t')"
    and r: "r = \<lparr>learnings = [''L''], visitedUrls = [''u''], queries = [qa, qb]\<rparr>"
    by (simp add: run_simps env_simps)
  from deepResearch_no_duplicates [OF run] show ?thesis
    by (simp add: run r)
qed


section \<open>Levels without contributions\<close>

text \<open>
  Claim C10. If the expansion returns no sub-query, the level returns
  \<open>\<lparr>learnings = [], visitedUrls = [], queries = []\<rparr>\<close> whatever learnings and URLs
  were carried into it. A level whose branches all contribute the empty result returns
  no learnings and no URLs either: the accumulators that were passed in are dropped.
\<close>

theorem empty_level_drops_accumulators:
  "(generateSerpQueries env qry breadth ls t = (Inr [], t1) \<longrightarrow>
      deepResearch env qry breadth depth ls urls t
        = (Inr \<lparr>learnings = [], visitedUrls = [], queries = []\<rparr>, t1))
   \<and> (generateSerpQueries env qry breadth ls t = (Inr Q, t1)
      \<and> (\<forall>q \<in> set Q. \<forall>s. fst (branch env Q breadth depth ls urls q s)
                = Inr \<lparr>learnings = [], visitedUrls = [], queries = []\<rparr>)
      \<longrightarrow> fst (deepResearch env qry breadth depth ls urls t)
            = Inr \<lparr>learnings = [], visitedUrls = [], queries = Q\<rparr>)"
proof (intro conjI impI)
  assume "generateSerpQueries env qry breadth ls t = (Inr [], t1)"
  then show "deepResearch env qry breadth depth ls urls t
        = (Inr \<lparr>learnings = [], visitedUrls = [], queries = []\<rparr>, t1)"
    by (simp add: deepResearch_level)
next
  assume "generateSerpQueries env qry breadth ls t = (Inr Q, t1)
      \<and> (\<forall>q \<in> set Q. \<forall>s. fst (branch env Q breadth depth ls urls q s)
                = Inr \<lparr>learnings = [], visitedUrls = [], queries = []\<rparr>)"
  then show "fst (deepResearch env qry breadth depth ls urls t)
            = Inr \<lparr>learnings = [], visitedUrls = [], queries = Q\<rparr>"
    by (intro level_of_empty_branches) auto
qed

theorem empty_level_drops_accumulators_witness:
  "generateSerpQueries env_noplan ''q'' 2 [''old''] [] = (Inr [], [Generate (SerpQueries ''q'' 2 [''old''])])
   \<and> deepResearch env_noplan ''q'' 2 1 [''old''] [''seen''] []
       = (Inr \<lparr>learnings = [], visitedUrls = [], queries = []\<rparr>, [Generate (SerpQueries ''q'' 2 [''old''])])
   \<and> fst (deepResearch env_nodistill ''q'' 2 1 [''old''] [''seen''] [])
       = Inr \<lparr>learnings = [], visitedUrls = [], queries = [qa, qb]\<rparr>"
proof -
  have e: "generateSerpQueries env_noplan ''q'' 2 [''old''] []
             = (Inr [], [Generate (SerpQueries ''q'' 2 [''old''])])"
    by (simp add: run_simps env_simps)
  have Q: "generateSerpQueries env_nodistill ''q'' 2 [''old''] []
             = (Inr [qa, qb], [Generate (SerpQueries ''q'' 2 [''old''])])"
    by (simp add: run_simps env_simps)
  have all: "\<forall>q \<in> set [qa, qb]. \<forall>s.
               fst (branch env_nodistill [qa, qb] 2 1 [''old''] [''seen''] q s)
                 = Inr \<lparr>learnings = [], visitedUrls = [], queries = []\<rparr>"
    by (simp add: run_simps env_simps)
  from empty_level_drops_accumulators [where env = env_noplan and qry = "''q''" and breadth = 2 and ls = "[''old'']" and t = "[]"
         and ?t1.0 = "[Generate (SerpQueries ''q'' 2 [''old''])]" and depth = 1
         and urls = "[''seen'']"] e
  have a: "deepResearch env_noplan ''q'' 2 1 [''old''] [''seen''] []
       = (Inr \<lparr>learnings = [], visitedUrls = [], queries = []\<rparr>, [Generate (SerpQueries ''q'' 2 [''old''])])"
    by blast
  from empty_level_drops_accumulators [where env = env_nodistill and qry = "''q''" and breadth = 2 and ls = "[''old'']"
         and t = "[]" and ?t1.0 = "[Generate (SerpQueries ''q'' 2 [''old''])]" and depth = 1
         and urls = "[''seen'']" and Q = "[qa, qb]"] Q all
  have b: "fst (deepResearch env_nodistill ''q'' 2 1 [''old''] [''seen''] [])
       = Inr \<lparr>learnings = [], visitedUrls = [], queries = [qa, qb]\<rparr>"
    by blast
  from e a b show ?thesis by blast
qed

section \<open>Generation errors\<close>

text \<open>
  Claim C2, as stated, fails for the distillation step. In a world whose distillation
  always fails, \<open>processSerpResult\<close> returns the error, and the level still returns
  normally: the branch has become the empty result, as it does for a failed retrieval.
\<close>

theorem distillation_error_is_contained:
  "fst (processSerpResult env_nodistill ''a'' [\<lparr>url = Some ''u'', markdown = Some ''m''\<rparr>] 3 1
          [Generate (SerpQueries ''q'' 1 []), Sleep 5000, Search ''a''])
     = Inl (GenerationError ''schema'')
   \<and> deepResearch env_nodistill ''q'' 1 0 [] [] []
       = (Inr \<lparr>learnings = [], visitedUrls = [], queries = [qa]\<rparr>,
          [Generate (SerpQueries ''q'' 1 []), Sleep 5000, Search ''a'',
           Generate (SerpLearnings ''a'' 3 1 [''m''])])"
  by (simp add: run_simps env_simps ceil_one_half)

text \<open>
  Claim C2, amended. An error of the query expansion is not recovered: the level whose
  expansion fails fails with that error. A branch whose retrieval and distillation have
  succeeded and whose recursive call fails does not become the empty result: it fails
  with the error of that call. A level one of whose branches fails, after the branches
  before it have returned, fails with the error of that branch. A branch fails in no
  other way than by its recursive call. An error of the distillation step is caught at
  the branch, whose contribution is then the empty result.
\<close>

theorem generation_error_propagation:
  "(fst (generateSerpQueries env qry breadth ls t) = Inl e
      \<longrightarrow> fst (deepResearch env qry breadth depth ls urls t) = Inl e)
   \<and> (firecrawlSearchWithRetry env (query q) MAX_RETRIES t = (Inr result, t1)
      \<and> processSerpResult env (query q) result 3 \<lceil>real_of_int breadth / 2\<rceil> t1 = (Inr res, t2)
      \<and> 0 < depth - 1
      \<and> fst (deepResearch env (nextQuery q res) \<lceil>real_of_int breadth / 2\<rceil> (depth - 1)
                (ls @ newLearnings res) (urls @ compact (map url result))
                (t2 @ [LogDeeper \<lceil>real_of_int breadth / 2\<rceil> (depth - 1)])) = Inl e
      \<longrightarrow> fst (branch env Q breadth depth ls urls q t) = Inl e)
   \<and> (generateSerpQueries env qry breadth ls t = (Inr (pre @ q # post), t1)
      \<and> promiseAll_limit (branch env (pre @ q # post) breadth depth ls urls) pre t1 = (Inr rs, t2)
      \<and> fst (branch env (pre @ q # post) breadth depth ls urls q t2) = Inl e
      \<longrightarrow> fst (deepResearch env qry breadth depth ls urls t) = Inl e)
   \<and> (fst (branch env Q breadth depth ls urls q t) = Inl e \<longrightarrow>
        0 < depth - 1 \<and> (\<exists>result t1 res t2.
           firecrawlSearchWithRetry env (query q) MAX_RETRIES t = (Inr result, t1)
         \<and> processSerpResult env (query q) result 3 \<lceil>real_of_int breadth / 2\<rceil> t1 = (Inr res, t2)
         \<and> fst (deepResearch env (nextQuery q res) \<lceil>real_of_int breadth / 2\<rceil> (depth - 1)
                   (ls @ newLearnings res) (urls @ compact (map url result))
                   (t2 @ [LogDeeper \<lceil>real_of_int breadth / 2\<rceil> (depth - 1)])) = Inl e))
   \<and> (firecrawlSearchWithRetry env (query q) MAX_RETRIES t = (Inr result, t1)
      \<and> processSerpResult env (query q) result 3 \<lceil>real_of_int breadth / 2\<rceil> t1 = (Inl e, t2)
      \<longrightarrow> branch env Q breadth depth ls urls q t
            = (Inr \<lparr>learnings = [], visitedUrls = [], queries = []\<rparr>, t2))"
proof -
  have p1: "fst (generateSerpQueries env qry breadth ls t) = Inl e
      \<longrightarrow> fst (deepResearch env qry breadth depth ls urls t) = Inl e"
  proof
    assume "fst (generateSerpQueries env qry breadth ls t) = Inl e"
    then obtain t1 where "generateSerpQueries env qry breadth ls t = (Inl e, t1)"
      by (cases "generateSerpQueries env qry breadth ls t") simp
    then show "fst (deepResearch env qry breadth depth ls urls t) = Inl e"
      by (simp add: deepResearch_expansion_failed)
  qed
  have p2: "firecrawlSearchWithRetry env (query q) MAX_RETRIES t = (Inr result, t1)
      \<and> processSerpResult env (query q) result 3 \<lceil>real_of_int breadth / 2\<rceil> t1 = (Inr res, t2)
      \<and> 0 < depth - 1
      \<and> fst (deepResearch env (nextQuery q res) \<lceil>real_of_int breadth / 2\<rceil> (depth - 1)
                (ls @ newLearnings res) (urls @ compact (map url result))
                (t2 @ [LogDeeper \<lceil>real_of_int breadth / 2\<rceil> (depth - 1)])) = Inl e
      \<longrightarrow> fst (branch env Q breadth depth ls urls q t) = Inl e"
    by (simp add: branch_success)
  have p3: "generateSerpQueries env qry breadth ls t = (Inr (pre @ q # post), t1)
      \<and> promiseAll_limit (branch env (pre @ q # post) breadth depth ls urls) pre t1 = (Inr rs, t2)
      \<and> fst (branch env (pre @ q # post) breadth depth ls urls q t2) = Inl e
      \<longrightarrow> fst (deepResearch env qry breadth depth ls urls t) = Inl e"
  proof
    assume a: "generateSerpQueries env qry breadth ls t = (Inr (pre @ q # post), t1)
      \<and> promiseAll_limit (branch env (pre @ q # post) breadth depth ls urls) pre t1 = (Inr rs, t2)
      \<and> fst (branch env (pre @ q # post) breadth depth ls urls q t2) = Inl e"
    then obtain t3 where b: "branch env (pre @ q # post) breadth depth ls urls q t2 = (Inl e, t3)"
      by (cases "branch env (pre @ q # post) breadth depth ls urls q t2") simp
    with a have "promiseAll_limit (branch env (pre @ q # post) breadth depth ls urls)
               (pre @ q # post) t1 = (Inl e, t3)"
      by (simp add: promiseAll_limit_append)
    with a show "fst (deepResearch env qry breadth depth ls urls t) = Inl e"
      by (simp add: deepResearch_level)
  qed
  have p4: "fst (branch env Q breadth depth ls urls q t) = Inl e \<longrightarrow>
        0 < depth - 1 \<and> (\<exists>result t1 res t2.
           firecrawlSearchWithRetry env (query q) MAX_RETRIES t = (Inr result, t1)
         \<and> processSerpResult env (query q) result 3 \<lceil>real_of_int breadth / 2\<rceil> t1 = (Inr res, t2)
         \<and> fst (deepResearch env (nextQuery q res) \<lceil>real_of_int breadth / 2\<rceil> (depth - 1)
                   (ls @ newLearnings res) (urls @ compact (map url result))
                   (t2 @ [LogDeeper \<lceil>real_of_int breadth / 2\<rceil> (depth - 1)])) = Inl e)"
  proof
    assume "fst (branch env Q breadth depth ls urls q t) = Inl e"
    then obtain t3 where "branch env Q breadth depth ls urls q t = (Inl e, t3)"
      by (cases "branch env Q breadth depth ls urls q t") simp
    from branch_fails_by_recursion [OF this]
    show "0 < depth - 1 \<and> (\<exists>result t1 res t2.
           firecrawlSearchWithRetry env (query q) MAX_RETRIES t = (Inr result, t1)
         \<and> processSerpResult env (query q) result 3 \<lceil>real_of_int breadth / 2\<rceil> t1 = (Inr res, t2)
         \<and> fst (deepResearch env (nextQuery q res) \<lceil>real_of_int breadth / 2\<rceil> (depth - 1)
                   (ls @ newLearnings res) (urls @ compact (map url result))
                   (t2 @ [LogDeeper \<lceil>real_of_int breadth / 2\<rceil> (depth - 1)])) = Inl e)"
      by (metis fst_conv)
  qed
  have p5: "firecrawlSearchWithRetry env (query q) MAX_RETRIES t = (Inr result, t1)
      \<and> processSerpResult env (query q) result 3 \<lceil>real_of_int breadth / 2\<rceil> t1 = (Inl e, t2)
      \<longrightarrow> branch env Q breadth depth ls urls q t
            = (Inr \<lparr>learnings = [], visitedUrls = [], queries = []\<rparr>, t2)"
    by (simp add: branch_distillation_failed)
  show ?thesis
    by (rule conjI [OF p1 conjI [OF p2 conjI [OF p3 conjI [OF p4 p5]]]])
qed

theorem generation_error_propagation_witness:
  "fst (deepResearch env_deep_fail (nextQuery qa res_ok) 1 1 [''L''] [''u'']
          [Generate (SerpQueries ''q'' 2 []), Sleep 5000, Search ''a'',
           Generate (SerpLearnings ''a'' 3 1 [''m'']), LogDeeper 1 1])
     = Inl (GenerationError ''schema'')
   \<and> fst (branch env_deep_fail [qa, qb] 2 2 [] [] qa [Generate (SerpQueries ''q'' 2 [])])
     = Inl (GenerationError ''schema'')
   \<and> fst (deepResearch env_deep_fail ''q'' 2 2 [] [] []) = Inl (GenerationError ''schema'')
   \<and> (0::int) < 2 - 1
   \<and> (\<exists>result t1 res t2.
         firecrawlSearchWithRetry env_deep_fail (query qa) MAX_RETRIES
           [Generate (SerpQueries ''q'' 2 [])] = (Inr result, t1)
       \<and> processSerpResult env_deep_fail (query qa) result 3 \<lceil>real_of_int 2 / 2\<rceil> t1
           = (Inr res, t2)
       \<and> fst (deepResearch env_deep_fail (nextQuery qa res) \<lceil>real_of_int 2 / 2\<rceil> (2 - 1)
                ([] @ newLearnings res) ([] @ compact (map url result))
                (t2 @ [LogDeeper \<lceil>real_of_int 2 / 2\<rceil> (2 - 1)]))
           = Inl (GenerationError ''schema''))
   \<and> branch env_nodistill [qa] 1 0 [] [] qa [Generate (SerpQueries ''q'' 1 [])]
     = (Inr \<lparr>learnings = [], visitedUrls = [], queries = []\<rparr>,
        [Generate (SerpQueries ''q'' 1 []), Sleep 5000, Search ''a'',
         Generate (SerpLearnings ''a'' 3 1 [''m''])])"
proof -
  let ?e = "GenerationError ''schema''"
  let ?G = "[Generate (SerpQueries ''q'' 2 [])]"
  let ?S1 = "?G @ [Sleep 5000, Search ''a'']"
  let ?S2 = "?G @ [Sleep 5000, Search ''a'', Generate (SerpLearnings ''a'' 3 1 [''m''])]"
  let ?D = "[Generate (SerpQueries ''q'' 2 []), Sleep 5000, Search ''a'',
           Generate (SerpLearnings ''a'' 3 1 [''m'']), LogDeeper 1 1]"
  (* The expansion of the second level fails, so the second level fails. *)
  have g: "fst (generateSerpQueries env_deep_fail (nextQuery qa res_ok) 1 [''L''] ?D) = Inl ?e"
    by (simp add: run_simps env_simps env_deep_fail_def)
  have a: "fst (deepResearch env_deep_fail (nextQuery qa res_ok) 1 1 [''L''] [''u''] ?D) = Inl ?e"
    using generation_error_propagation [where env = env_deep_fail and qry = "nextQuery qa res_ok" and breadth = 1
        and ls = "[''L'']" and t = ?D and e = ?e and depth = 1 and urls = "[''u'']"] g
    by blast
  (* The branch that made the recursive call fails with it. *)
  have f: "firecrawlSearchWithRetry env_deep_fail (query qa) MAX_RETRIES ?G = (Inr page_ok, ?S1)"
    by (simp add: run_simps env_simps env_deep_fail_def)
  have d: "processSerpResult env_deep_fail (query qa) page_ok 3 \<lceil>real_of_int 2 / 2\<rceil> ?S1
             = (Inr res_ok, ?S2)"
    by (simp add: run_simps env_simps env_deep_fail_def)
  have pos: "(0::int) < 2 - 1" by simp
  have a': "fst (deepResearch env_deep_fail (nextQuery qa res_ok) \<lceil>real_of_int 2 / 2\<rceil> (2 - 1)
                ([] @ newLearnings res_ok) ([] @ compact (map url page_ok))
                (?S2 @ [LogDeeper \<lceil>real_of_int 2 / 2\<rceil> (2 - 1)])) = Inl ?e"
    using a by (simp add: env_simps compact_def)
  have b: "fst (branch env_deep_fail [qa, qb] 2 2 [] [] qa ?G) = Inl ?e"
    using generation_error_propagation [where env = env_deep_fail and q = qa and t = ?G and result = page_ok
        and ?t1.0 = ?S1 and breadth = 2 and res = res_ok and ?t2.0 = ?S2 and depth = 2
        and ls = "[]" and urls = "[]" and e = ?e and Q = "[qa, qb]"] f d pos a'
    by blast
  (* The level of that branch fails with it. *)
  have h1: "generateSerpQueries env_deep_fail ''q'' 2 [] [] = (Inr ([] @ qa # [qb]), ?G)"
    by (simp add: run_simps env_simps env_deep_fail_def)
  have h2: "promiseAll_limit (branch env_deep_fail ([] @ qa # [qb]) 2 2 [] []) [] ?G = (Inr [], ?G)"
    by simp
  have h3: "fst (branch env_deep_fail ([] @ qa # [qb]) 2 2 [] [] qa ?G) = Inl ?e"
    using b by simp
  have c: "fst (deepResearch env_deep_fail ''q'' 2 2 [] [] []) = Inl ?e"
    using generation_error_propagation [where env = env_deep_fail and qry = "''q''" and breadth = 2 and depth = 2
        and ls = "[]" and urls = "[]" and t = "[]" and pre = "[]" and q = qa and post = "[qb]"
        and ?t1.0 = ?G and rs = "[]" and ?t2.0 = ?G and e = ?e] h1 h2 h3
    by blast
  (* A failed branch has a failed recursive call behind it. *)
  have behind: "(0::int) < 2 - 1
   \<and> (\<exists>result t1 res t2.
         firecrawlSearchWithRetry env_deep_fail (query qa) MAX_RETRIES ?G = (Inr result, t1)
       \<and> processSerpResult env_deep_fail (query qa) result 3 \<lceil>real_of_int 2 / 2\<rceil> t1
           = (Inr res, t2)
       \<and> fst (deepResearch env_deep_fail (nextQuery qa res) \<lceil>real_of_int 2 / 2\<rceil> (2 - 1)
                ([] @ newLearnings res) ([] @ compact (map url result))
                (t2 @ [LogDeeper \<lceil>real_of_int 2 / 2\<rceil> (2 - 1)]))
           = Inl ?e)"
    using generation_error_propagation [where env = env_deep_fail and Q = "[qa, qb]" and breadth = 2
        and depth = 2 and ls = "[]" and urls = "[]" and q = qa and t = ?G and e = ?e] b
    by blast
  (* A failed distillation is contained. *)
  let ?H = "[Generate (SerpQueries ''q'' 1 [])]"
  let ?S = "[Generate (SerpQueries ''q'' 1 []), Sleep 5000, Search ''a'']"
  have k1: "firecrawlSearchWithRetry env_nodistill (query qa) MAX_RETRIES ?H = (Inr page_ok, ?S)"
    by (simp add: run_simps env_simps)
  have k2: "processSerpResult env_nodistill (query qa) page_ok 3 \<lceil>real_of_int 1 / 2\<rceil> ?S
              = (Inl ?e, ?S @ [Generate (SerpLearnings ''a'' 3 1 [''m''])])"
    by (simp add: run_simps env_simps ceil_one_half)
  have "branch env_nodistill [qa] 1 0 [] [] qa ?H
     = (Inr \<lparr>learnings = [], visitedUrls = [], queries = []\<rparr>,
        ?S @ [Generate (SerpLearnings ''a'' 3 1 [''m''])])"
    using generation_error_propagation [where env = env_nodistill and q = qa and t = ?H and result = page_ok
        and ?t1.0 = ?S and breadth = 1 and e = ?e
        and ?t2.0 = "?S @ [Generate (SerpLearnings ''a'' 3 1 [''m''])]"
        and Q = "[qa]" and depth = 0 and ls = "[]" and urls = "[]"] k1 k2
    by blast
  then have e: "branch env_nodistill [qa] 1 0 [] [] qa ?H
     = (Inr \<lparr>learnings = [], visitedUrls = [], queries = []\<rparr>,
        [Generate (SerpQueries ''q'' 1 []), Sleep 5000, Search ''a'',
         Generate (SerpLearnings ''a'' 3 1 [''m''])])"
    by simp
  from a b c behind e show ?thesis by blast
qed


section \<open>The budget of a branch\<close>

text \<open>
  Claim C4. A branch at a level with the budget \<open>(breadth, depth)\<close> whose retrieval
  and distillation succeed computes \<open>\<lceil>breadth / 2\<rceil>\<close>, which is \<open>(breadth + 1) div 2\<close>,
  and \<open>depth - 1\<close>. It is the recursive call with this budget if \<open>0 < depth - 1\<close>;
  otherwise it returns the merged learnings and URLs with no further call. From the
  budget \<open>(4, 2)\<close> the next level gets \<open>(2, 1)\<close>, and a branch of that level
  asks the distillation for one follow-up question and does not recurse.
\<close>

theorem branch_budget:
  "\<lceil>real_of_int breadth / 2\<rceil> = (breadth + 1) div 2
   \<and> (firecrawlSearchWithRetry env (query q) MAX_RETRIES t = (Inr result, t1)
      \<and> processSerpResult env (query q) result 3 \<lceil>real_of_int breadth / 2\<rceil> t1 = (Inr res, t2)
      \<longrightarrow> branch env Q breadth depth ls urls q t =
           (if 0 < depth - 1 then
              deepResearch env (nextQuery q res) \<lceil>real_of_int breadth / 2\<rceil> (depth - 1)
                (ls @ newLearnings res) (urls @ compact (map url result))
                (t2 @ [LogDeeper \<lceil>real_of_int breadth / 2\<rceil> (depth - 1)])
            else (Inr \<lparr>learnings = ls @ newLearnings res,
                        visitedUrls = urls @ compact (map url result), queries = Q\<rparr>, t2)))"
  by (simp add: ceil_half branch_success)


theorem branch_budget_witness:
  "branch env_ok [qa, qb] 4 2 [] [] qa [Generate (SerpQueries ''q'' 4 [])]
     = deepResearch env_ok (nextQuery qa res_ok) 2 1 [''L''] [''u'']
         [Generate (SerpQueries ''q'' 4 []), Sleep 5000, Search ''a'',
          Generate (SerpLearnings ''a'' 3 2 [''m'']), LogDeeper 2 1]
   \<and> branch env_ok [qa, qb] 2 1 [''L''] [''u''] qa [LogDeeper 2 1]
     = (Inr \<lparr>learnings = [''L'', ''L''], visitedUrls = [''u'', ''u''], queries = [qa, qb]\<rparr>,
        [LogDeeper 2 1, Sleep 5000, Search ''a'', Generate (SerpLearnings ''a'' 3 1 [''m''])])
   \<and> filter deeper_level (snd (deepResearch env_ok ''q'' 4 2 [] [] []))
     = [Generate (SerpQueries ''q'' 4 []),
        LogDeeper 2 1, Generate (SerpQueries (nextQuery qa res_ok) 2 [''L'']),
        LogDeeper 2 1, Generate (SerpQueries (nextQuery qb res_ok) 2 [''L''])]"
proof -
  let ?G = "[Generate (SerpQueries ''q'' 4 [])]"
  have f1: "firecrawlSearchWithRetry env_ok (query qa) MAX_RETRIES ?G
              = (Inr page_ok, ?G @ [Sleep 5000, Search ''a''])"
    by (simp add: run_simps env_simps page_ok_def)
  have d1: "processSerpResult env_ok (query qa) page_ok 3 \<lceil>real_of_int 4 / 2\<rceil>
              (?G @ [Sleep 5000, Search ''a''])
              = (Inr res_ok, ?G @ [Sleep 5000, Search ''a'', Generate (SerpLearnings ''a'' 3 2 [''m''])])"
    by (simp add: run_simps env_simps page_ok_def res_ok_def)
  have a: "branch env_ok [qa, qb] 4 2 [] [] qa ?G
     = deepResearch env_ok (nextQuery qa res_ok) 2 1 [''L''] [''u'']
         [Generate (SerpQueries ''q'' 4 []), Sleep 5000, Search ''a'',
          Generate (SerpLearnings ''a'' 3 2 [''m'']), LogDeeper 2 1]"
    using branch_budget [where breadth = 4 and env = env_ok and q = qa and t = ?G and result = page_ok
        and ?t1.0 = "?G @ [Sleep 5000, Search ''a'']" and res = res_ok
        and ?t2.0 = "?G @ [Sleep 5000, Search ''a'', Generate (SerpLearnings ''a'' 3 2 [''m''])]"
        and Q = "[qa, qb]" and depth = 2 and ls = "[]" and urls = "[]"] f1 d1
    by (simp add: res_ok_def page_ok_def compact_def)
  let ?D = "[LogDeeper 2 1]"
  have f2: "firecrawlSearchWithRetry env_ok (query qa) MAX_RETRIES ?D
              = (Inr page_ok, ?D @ [Sleep 5000, Search ''a''])"
    by (simp add: run_simps env_simps page_ok_def)
  have d2: "processSerpResult env_ok (query qa) page_ok 3 \<lceil>real_of_int 2 / 2\<rceil>
              (?D @ [Sleep 5000, Search ''a''])
              = (Inr res_ok, ?D @ [Sleep 5000, Search ''a'', Generate (SerpLearnings ''a'' 3 1 [''m''])])"
    by (simp add: run_simps env_simps page_ok_def res_ok_def)
  have b: "branch env_ok [qa, qb] 2 1 [''L''] [''u''] qa ?D
     = (Inr \<lparr>learnings = [''L'', ''L''], visitedUrls = [''u'', ''u''], queries = [qa, qb]\<rparr>,
        [LogDeeper 2 1, Sleep 5000, Search ''a'', Generate (SerpLearnings ''a'' 3 1 [''m''])])"
    using branch_budget [where breadth = 2 and env = env_ok and q = qa and t = ?D and result = page_ok
        and ?t1.0 = "?D @ [Sleep 5000, Search ''a'']" and res = res_ok
        and ?t2.0 = "?D @ [Sleep 5000, Search ''a'', Generate (SerpLearnings ''a'' 3 1 [''m''])]"
        and Q = "[qa, qb]" and depth = 1 and ls = "[''L'']" and urls = "[''u'']"] f2 d2
    by (simp add: res_ok_def page_ok_def compact_def)
  have c: "filter deeper_level (snd (deepResearch env_ok ''q'' 4 2 [] [] []))
     = [Generate (SerpQueries ''q'' 4 []),
        LogDeeper 2 1, Generate (SerpQueries (nextQuery qa res_ok) 2 [''L'']),
        LogDeeper 2 1, Generate (SerpQueries (nextQuery qb res_ok) 2 [''L''])]"
    by (simp add: run_simps env_simps res_ok_def deeper_level_def)
  from a b c show ?thesis by blast
qed


section \<open>Exponential backoff\<close>

text \<open>
  Claim C6. A retrieval with \<open>retries > 0\<close> makes \<open>k + 1\<close> attempts for some
  \<open>k < retries\<close>: the first \<open>k\<close> fail, and the answer of the last one, failure or
  not, is the outcome. Every attempt comes after a wait of \<open>INITIAL_BACKOFF\<close>. After
  the failed attempt number \<open>j < k\<close> the loop waits \<open>INITIAL_BACKOFF * 2 ^ j\<close>: the
  backoff starts at the initial value and doubles every time. The call fails only when
  \<open>k = retries - 1\<close>, that is after \<open>retries - 1\<close> waits of the backoff.
\<close>

theorem retry_backoff_doubles:
  assumes "0 < retries"
  shows "\<exists>k. k < nat retries
     \<and> (\<forall>j. j < k \<longrightarrow> isl (firecrawl_search env
                (t @ backoff_rounds qry INITIAL_BACKOFF j @ [Sleep INITIAL_BACKOFF]) qry))
     \<and> firecrawlSearchWithRetry env qry retries t
         = (firecrawl_search env
              (t @ backoff_rounds qry INITIAL_BACKOFF k @ [Sleep INITIAL_BACKOFF]) qry,
            t @ backoff_rounds qry INITIAL_BACKOFF k @ [Sleep INITIAL_BACKOFF, Search qry])
     \<and> (isl (fst (firecrawlSearchWithRetry env qry retries t)) \<longrightarrow> k = nat retries - 1)"
  using retry_loop_trace [of 0 retries env t qry INITIAL_BACKOFF] assms
  by (simp add: firecrawlSearchWithRetry_def)


theorem retry_backoff_doubles_witness:
  "firecrawlSearchWithRetry env_down ''a'' MAX_RETRIES []
     = (Inl (RetrievalError ''Timeout''),
        [Sleep 5000, Search ''a'', LogRetry ''a'' 5000, Sleep 5000,
         Sleep 5000, Search ''a'', LogRetry ''a'' 10000, Sleep 10000,
         Sleep 5000, Search ''a'', LogRetry ''a'' 20000, Sleep 20000,
         Sleep 5000, Search ''a'', LogRetry ''a'' 40000, Sleep 40000,
         Sleep 5000, Search ''a''])
   \<and> firecrawlSearchWithRetry env_recovering ''a'' MAX_RETRIES []
     = (Inr [\<lparr>url = Some ''u'', markdown = Some ''m''\<rparr>],
        [Sleep 5000, Search ''a'', LogRetry ''a'' 5000, Sleep 5000,
         Sleep 5000, Search ''a'', LogRetry ''a'' 10000, Sleep 10000,
         Sleep 5000, Search ''a'', LogRetry ''a'' 20000, Sleep 20000,
         Sleep 5000, Search ''a''])"
proof -
  have pos: "0 < MAX_RETRIES" by (simp add: MAX_RETRIES_def)
  from retry_backoff_doubles [OF pos, of env_down "[]" "''a''"] obtain k where
    run: "firecrawlSearchWithRetry env_down ''a'' MAX_RETRIES []
         = (firecrawl_search env_down
              ([] @ backoff_rounds ''a'' INITIAL_BACKOFF k @ [Sleep INITIAL_BACKOFF]) ''a'',
            [] @ backoff_rounds ''a'' INITIAL_BACKOFF k @ [Sleep INITIAL_BACKOFF, Search ''a''])"
    and last: "isl (fst (firecrawlSearchWithRetry env_down ''a'' MAX_RETRIES []))
                 \<longrightarrow> k = nat MAX_RETRIES - 1"
    by blast
  have fails: "firecrawl_search env_down s ''a'' = Inl (RetrievalError ''Timeout'')" for s
    by (simp add: env_simps)
  from run last have k: "k = Suc (Suc (Suc (Suc 0)))"
    by (simp add: fails MAX_RETRIES_def)
  have a: "firecrawlSearchWithRetry env_down ''a'' MAX_RETRIES []
     = (Inl (RetrievalError ''Timeout''),
        [Sleep 5000, Search ''a'', LogRetry ''a'' 5000, Sleep 5000,
         Sleep 5000, Search ''a'', LogRetry ''a'' 10000, Sleep 10000,
         Sleep 5000, Search ''a'', LogRetry ''a'' 20000, Sleep 20000,
         Sleep 5000, Search ''a'', LogRetry ''a'' 40000, Sleep 40000,
         Sleep 5000, Search ''a''])"
    unfolding run k fails
    by (simp add: backoff_rounds_Suc backoff_rounds_0 INITIAL_BACKOFF_def)
  have b: "firecrawlSearchWithRetry env_recovering ''a'' MAX_RETRIES []
     = (Inr [\<lparr>url = Some ''u'', markdown = Some ''m''\<rparr>],
        [Sleep 5000, Search ''a'', LogRetry ''a'' 5000, Sleep 5000,
         Sleep 5000, Search ''a'', LogRetry ''a'' 10000, Sleep 10000,
         Sleep 5000, Search ''a'', LogRetry ''a'' 20000, Sleep 20000,
         Sleep 5000, Search ''a''])"
    by (simp add: run_simps env_simps env_recovering_def)
  from a b show ?thesis by (rule conjI)
qed


section \<open>One research pass at every depth\<close>





section \<open>Saving the report\<close>

text \<open>
  Claim C9 expects \<^verbatim>\<open>run\<close> to save the report under a name that is free, and to
  print it and leave with the status \<open>1\<close> after a hundred collisions. \<^verbatim>\<open>run\<close>
  does neither: whatever the services answer and whatever files exist, it ends with an
  error before the statements that save the report. When the research and the report
  succeed, as in the world \<open>env_ok\<close>, the error is the \<^verbatim>\<open>TypeError\<close> of the
  undefined \<^verbatim>\<open>steps\<close>.
\<close>

theorem run_throws_before_saving:
  "isl (fst (run env initialQuery breadth depth refinement qas t))
   \<and> fst (run env_ok ''topic'' 4 2 1 [(''q1'', ''a1'')] []) = Inl (TypeError ''steps'')"
proof
  show "isl (fst (run env initialQuery breadth depth refinement qas t))"
    by (simp add: run_def split: prod.split sum.split)
  show "fst (run env_ok ''topic'' 4 2 1 [(''q1'', ''a1'')] []) = Inl (TypeError ''steps'')"
    by (simp add: run_def report_simps run_simps env_simps)
qed

section \<open>The refinement step\<close>

text \<open>
  Claim C7, as stated, fails for the visited URLs. Two worlds that differ only in the
  URLs of the pages they find give researches with different visited URLs, and
  \<open>refineReport\<close> returns the same revised report and leaves the same trace in both:
  the URLs take no part in the revision and are not returned.
\<close>

theorem refineReport_ignores_urls:
  "fst (deepResearch env_ok (combinedQuery ''p'' ''c'' [''x'']) 3 2 [] []
          [Generate (Criticism ''draft''), Generate (FollowUps 3 ''c'')])
     = Inr \<lparr>learnings = [''L''], visitedUrls = [''u''], queries = [qa, qb]\<rparr>
   \<and> fst (deepResearch env_other_urls (combinedQuery ''p'' ''c'' [''x'']) 3 2 [] []
          [Generate (Criticism ''draft''), Generate (FollowUps 3 ''c'')])
     = Inr \<lparr>learnings = [''L''], visitedUrls = [''w''], queries = [qa, qb]\<rparr>
   \<and> fst (refineReport env_ok ''draft'' ''p'' 3 2 []) = Inr ''draft+''
   \<and> refineReport env_other_urls ''draft'' ''p'' 3 2 [] = refineReport env_ok ''draft'' ''p'' 3 2 []"
  by (simp add: report_simps run_simps env_simps env_other_urls_def)

text \<open>
  Claim C7, amended. A refinement runs \<open>deepResearch\<close> on the combined query of the
  initial query, the criticism and the follow-up questions, with the given breadth and
  depth; the revised report is the answer to the request that holds the report and the
  learnings of that research, and neither its queries nor its visited URLs. Replacing
  the URLs that the search service reports changes nothing in what \<open>refineReport\<close>
  returns.
\<close>

theorem refineReport_uses_learnings_only:
  "(generate_criticism env t report = Inr criticism
      \<and> generate_questions env (t @ [Generate (Criticism report)]) breadth criticism = Inr questions
      \<and> deepResearch env (combinedQuery initialQuery criticism (slice0 breadth questions))
           breadth depth [] []
           (t @ [Generate (Criticism report), Generate (FollowUps breadth criticism)]) = (Inr r, t1)
      \<longrightarrow> refineReport env report initialQuery breadth depth t
            = (generate_revision env t1 report (join NL (learnings r)),
               t1 @ [Generate (Revision report (join NL (learnings r)))]))
   \<and> refineReport (with_urls f env) report initialQuery breadth depth t
       = refineReport env report initialQuery breadth depth t"
proof -
  have p1: "generate_criticism env t report = Inr criticism
      \<and> generate_questions env (t @ [Generate (Criticism report)]) breadth criticism = Inr questions
      \<and> deepResearch env (combinedQuery initialQuery criticism (slice0 breadth questions))
           breadth depth [] []
           (t @ [Generate (Criticism report), Generate (FollowUps breadth criticism)]) = (Inr r, t1)
      \<longrightarrow> refineReport env report initialQuery breadth depth t
            = (generate_revision env t1 report (join NL (learnings r)),
               t1 @ [Generate (Revision report (join NL (learnings r)))])"
    by (simp add: refineReport_def)
  have same: "generate_criticism (with_urls f env) = generate_criticism env"
    "generate_questions (with_urls f env) = generate_questions env"
    "generate_revision (with_urls f env) = generate_revision env"
    by (simp_all add: with_urls_def)
  have p2: "refineReport (with_urls f env) report initialQuery breadth depth t
       = refineReport env report initialQuery breadth depth t"
  proof (cases "generate_criticism env t report")
    case (Inl e)
    then show ?thesis by (simp add: refineReport_def same)
  next
    case c: (Inr criticism)
    show ?thesis
    proof (cases "generate_questions env (t @ [Generate (Criticism report)]) breadth criticism")
      case (Inl e)
      with c show ?thesis by (simp add: refineReport_def same)
    next
      case q: (Inr questions)
      let ?t2 = "t @ [Generate (Criticism report), Generate (FollowUps breadth criticism)]"
      let ?q = "combinedQuery initialQuery criticism (slice0 breadth questions)"
      have "learnt (deepResearch (with_urls f env) ?q breadth depth [] [] ?t2)
              = learnt (deepResearch env ?q breadth depth [] [] ?t2)"
        by (rule with_urls_learnt)
      then show ?thesis
        by (cases "deepResearch (with_urls f env) ?q breadth depth [] [] ?t2";
            cases "deepResearch env ?q breadth depth [] [] ?t2")
           (auto simp: refineReport_def same c q learnt_def split: sum.splits)
    qed
  qed
  from p1 p2 show ?thesis by (rule conjI)
qed

theorem refineReport_uses_learnings_only_witness:
  "refineReport env_ok ''draft'' ''p'' 3 2 []
     = (Inr ''draft+'',
        snd (deepResearch env_ok (combinedQuery ''p'' ''c'' [''x'']) 3 2 [] []
               [Generate (Criticism ''draft''), Generate (FollowUps 3 ''c'')])
        @ [Generate (Revision ''draft'' ''L'')])
   \<and> refineReport (with_urls (\<lambda>u. Some ''w'') env_ok) ''draft'' ''p'' 3 2 []
     = refineReport env_ok ''draft'' ''p'' 3 2 []"
proof -
  let ?T = "[Generate (Criticism ''draft''), Generate (FollowUps 3 ''c'')]"
  let ?t1 = "snd (deepResearch env_ok (combinedQuery ''p'' ''c'' [''x'']) 3 2 [] [] ?T)"
  let ?r = "\<lparr>learnings = [''L''], visitedUrls = [''u''], queries = [qa, qb]\<rparr>"
  have c: "generate_criticism env_ok [] ''draft'' = Inr ''c''"
    by (simp add: env_simps)
  have q: "generate_questions env_ok ([] @ [Generate (Criticism ''draft'')]) 3 ''c'' = Inr [''x'']"
    by (simp add: env_simps)
  have "fst (deepResearch env_ok (combinedQuery ''p'' ''c'' [''x'']) 3 2 [] [] ?T) = Inr ?r"
    by (simp add: run_simps env_simps)
  then have d: "deepResearch env_ok (combinedQuery ''p'' ''c'' (slice0 3 [''x''])) 3 2 [] []
             ([] @ [Generate (Criticism ''draft''), Generate (FollowUps 3 ''c'')]) = (Inr ?r, ?t1)"
    by (simp add: slice0_def prod_eq_iff)
  have rev: "generate_revision env_ok ?t1 ''draft'' (join NL (learnings ?r)) = Inr ''draft+''"
    by (simp add: env_simps)
  note inst = refineReport_uses_learnings_only [where env = env_ok and t = "[]" and report = "''draft''"
        and criticism = "''c''" and breadth = 3 and questions = "[''x'']"
        and initialQuery = "''p''" and depth = 2 and r = ?r and ?t1.0 = ?t1
        and f = "\<lambda>u. Some ''w''"]
  from inst c q d have a: "refineReport env_ok ''draft'' ''p'' 3 2 []
            = (generate_revision env_ok ?t1 ''draft'' (join NL (learnings ?r)),
               ?t1 @ [Generate (Revision ''draft'' (join NL (learnings ?r)))])"
    by blast
  from inst have b: "refineReport (with_urls (\<lambda>u. Some ''w'') env_ok) ''draft'' ''p'' 3 2 []
     = refineReport env_ok ''draft'' ''p'' 3 2 []"
    by blast
  from a b rev show ?thesis by simp
qed


section \<open>The final report\<close>

text \<open>
  Claim C5 expects a step trail beside the report. \<open>writeFinalReport\<close> returns one
  string. Without refinement it is the draft followed by the sources. With two
  refinements it is the second revision followed by the sources; the first revision is
  not part of what is returned.
\<close>

theorem writeFinalReport_returns_one_string:
  "writeFinalReport env_ok ''p'' [''L''] [''u'', ''v''] 0 []
     = (Inr (''draft'' @ NL @ NL @ ''## Sources'' @ NL @ NL @ ''- u'' @ NL @ ''- v''),
        [Generate (FinalReport ''p'' (''<learning>'' @ NL @ ''L'' @ NL @ ''</learning>''))])
   \<and> fst (writeFinalReport env_ok ''p'' [''L''] [''u'', ''v''] 2 [])
     = Inr (''draft++'' @ NL @ NL @ ''## Sources'' @ NL @ NL @ ''- u'' @ NL @ ''- v'')"
  by (simp add: report_simps run_simps env_simps NL_def)


end
